theory Spec2Isabelle
  imports Main "HOL-Library.Multiset" "HOL-Library.Word"
begin

section \<open>The lost-and-found backend (server.js)\<close>

text \<open>
  The server is an Express application over a Mongoose model \<open>Item\<close> and a Multer disk
  storage. The functions of server.js are translated one by one; the library calls they
  make are given the behaviour the libraries document, each in a definition of its own:
  \<^item> strings are byte sequences (UTF-8, as sent on the wire);
  \<^item> \<open>Date.now()\<close>, the identifier a new document receives, and the outcome of the disk
    and database calls are inputs of a request (the record \<open>env\<close>);
  \<^item> the collection is the list of its documents in insertion order, the upload
    directory a map from file names to contents;
  \<^item> a rejected promise or an error passed to \<open>next\<close> is a value of \<open>js_error\<close>;
  \<^item> what \<open>console.log\<close> and \<open>console.error\<close> print is not part of the state.

  server.js holds the server twice. The model follows the first copy (lines 1 to 148),
  the deployed one; the second, earlier copy differs in the base URL of the image links,
  in its messages, and in registering the error-handling middleware before the delete
  route.
\<close>

subsection \<open>Strings the source builds\<close>

text \<open>The emoji of the source's messages, as their UTF-8 bytes.\<close>

definition check_mark :: string where
  "check_mark = [char_of (0xE2::nat), char_of (0x9C::nat), char_of (0x85::nat)]"

definition wastebasket :: string where
  "wastebasket = [char_of (0xF0::nat), char_of (0x9F::nat), char_of (0x97::nat), char_of (0x91::nat),
                  char_of (0xEF::nat), char_of (0xB8::nat), char_of (0x8F::nat)]"

definition rocket :: string where
  "rocket = [char_of (0xF0::nat), char_of (0x9F::nat), char_of (0x9A::nat), char_of (0x80::nat)]"

text \<open>A template literal \<open>`${n}`\<close> of an integer number: its decimal digits.\<close>

definition digit_char :: "nat \<Rightarrow> char" where
  "digit_char d = ''0123456789'' ! d"

fun digits :: "nat \<Rightarrow> string" where
  "digits n = (if n < 10 then [digit_char n] else digits (n div 10) @ [digit_char (n mod 10)])"

definition number_to_string :: "int \<Rightarrow> string" where
  "number_to_string n = (if n < 0 then CHR ''-'' # digits (nat (- n)) else digits (nat n))"

subsection \<open>path.extname (POSIX)\<close>

text \<open>
  Node's \<open>path.extname\<close> scans the path from its last character to its first, with five
  variables; \<open>-1\<close> stands for "not seen yet", as in Node, and \<open>stopped\<close> records that
  the loop has left through its \<open>break\<close>.
\<close>

record ext_scan =
  startDot :: int
  startPart :: int
  end_pos :: int
  matchedSlash :: bool
  preDotState :: int
  stopped :: bool

definition ext_step :: "string \<Rightarrow> nat \<Rightarrow> ext_scan \<Rightarrow> ext_scan" where
  "ext_step path i s =
     (if stopped s then s
      else if path ! i = CHR ''/'' then
        (if \<not> matchedSlash s then s\<lparr>startPart := int i + 1, stopped := True\<rparr> else s)
      else
        (let s1 = (if end_pos s = - 1 then s\<lparr>matchedSlash := False, end_pos := int i + 1\<rparr> else s)
         in if path ! i = CHR ''.'' then
              (if startDot s1 = - 1 then s1\<lparr>startDot := int i\<rparr>
               else if preDotState s1 \<noteq> 1 then s1\<lparr>preDotState := 1\<rparr> else s1)
            else if startDot s1 \<noteq> - 1 then s1\<lparr>preDotState := - 1\<rparr>
            else s1))"

text \<open>\<open>ext_loop path n s\<close> runs the loop body at the indices \<open>n - 1\<close> down to \<open>0\<close>.\<close>

fun ext_loop :: "string \<Rightarrow> nat \<Rightarrow> ext_scan \<Rightarrow> ext_scan" where
  "ext_loop path 0 s = s"
| "ext_loop path (Suc i) s = ext_loop path i (ext_step path i s)"

definition extname :: "string \<Rightarrow> string" where
  "extname path =
     (let s = ext_loop path (length path)
                \<lparr>startDot = - 1, startPart = 0, end_pos = - 1, matchedSlash = True,
                 preDotState = 0, stopped = False\<rparr>
      in if startDot s = - 1 \<or> end_pos s = - 1 \<or> preDotState s = 0 \<or>
            (preDotState s = 1 \<and> startDot s = end_pos s - 1 \<and> startDot s = startPart s + 1)
         then []
         else take (nat (end_pos s - startDot s)) (drop (nat (startDot s)) path))"

subsection \<open>The Item model\<close>

text \<open>
  An ObjectId is twelve bytes. Mongoose casts the \<open>:id\<close> of the path to one: a string
  casts when it is 24 hexadecimal digits (either case), and anything else is a CastError.
  (Versions of the driver before bson 5 also took any string of twelve characters as the
  twelve bytes; a string of another length that is not 24 hexadecimal digits was never
  accepted.)
\<close>

type_synonym ObjectId = "96 word"

definition hex_digit :: "char \<Rightarrow> nat option" where
  "hex_digit c =
     (let n = (of_char c :: nat)
      in if 48 \<le> n \<and> n \<le> 57 then Some (n - 48)
         else if 97 \<le> n \<and> n \<le> 102 then Some (n - 87)
         else if 65 \<le> n \<and> n \<le> 70 then Some (n - 55)
         else None)"

definition from_hex :: "string \<Rightarrow> ObjectId" where
  "from_hex s = foldl (\<lambda>w c. w * 16 + of_nat (case hex_digit c of Some d \<Rightarrow> d | None \<Rightarrow> 0)) 0 s"

definition castObjectId :: "string \<Rightarrow> ObjectId option" where
  "castObjectId s =
     (if length s = 24 \<and> list_all (\<lambda>c. hex_digit c \<noteq> None) s then Some (from_hex s) else None)"

text \<open>
  \<open>itemSchema\<close>: six String paths and a Date, plus the \<open>_id\<close> Mongoose adds. A path that
  was not given (or is null) is \<open>None\<close>; a Date is its number of milliseconds.
\<close>

record Item =
  oid :: ObjectId
  item_name :: "string option"
  description :: "string option"
  location :: "string option"
  contact_number :: "string option"
  type :: "string option"
  image_url :: "string option"
  reported_at :: int

datatype js_error =
    JsonSyntaxError string
  | PayloadTooLarge
  | DiskError string
  | MongoError string
  | CastError string

text \<open>
  The state the requests share: the collection and the upload directory.
\<close>

record state =
  items :: "Item list"
  uploads :: "string \<rightharpoonup> string"

text \<open>
  What one request reads from outside: the clock when Multer names the file, the clock
  when the document is constructed, the identifier the document receives, and whether
  the disk write and the database call fail (with the library's error text).
\<close>

record env =
  upload_clock :: int
  clock :: int
  new_id :: ObjectId
  disk_fault :: "string option"
  db_fault :: "string option"

record config =
  RENDER_EXTERNAL_URL :: "string option"

subsection \<open>Requests and responses\<close>

text \<open>
  The routes of the application. \<open>Other_route\<close> stands for a request that no layer
  answers: not one of the five routes, not a preflight (the CORS layer answers those) and
  not a file the static layer finds under /uploads. The \<open>:id\<close> of the delete route is the
  text of the path segment.
\<close>

datatype route =
    POST_items
  | GET_items
  | DELETE_items string
  | GET_health
  | GET_root
  | Other_route

text \<open>
  What \<open>express.json\<close> makes of a body of type application/json: \<open>JSON.parse\<close>
  throws (the body text is kept on the error), the body is over the limit of 10mb and is
  never parsed, or it is an object, here of text fields.
\<close>

datatype json_read =
    Unparsable string
  | Oversize
  | Parsed "string \<rightharpoonup> string"

record upload =
  originalname :: string
  content :: string

text \<open>
  The body of a request: none, JSON, or a multipart form of text fields with at most one
  file in the field \<open>image\<close>.
\<close>

datatype payload =
    NoPayload
  | JsonPayload json_read
  | MultipartPayload "string \<rightharpoonup> string" "upload option"

record request =
  route :: route
  payload :: payload

text \<open>\<open>req.file\<close> as Multer's disk storage fills it.\<close>

record multer_file =
  file_originalname :: string
  filename :: string

datatype body =
    Saved string Item
  | Items "Item list"
  | Message string
  | Error string
  | Status string
  | Text string
  | Cannot route
  | ErrorPage

record response =
  status :: nat
  body :: body

text \<open>
  How a middleware or a handler ends: it sends a response, calls \<open>next()\<close>, or an error
  leaves it (\<open>next(err)\<close>, a throw, a rejected promise).
\<close>

datatype handled =
    Respond response
  | Next
  | NextErr js_error

subsection \<open>The Mongoose calls\<close>

text \<open>
  \<open>new Item({...})\<close>: the document gets its \<open>_id\<close> and the default of \<open>reported_at\<close>,
  \<open>Date.now\<close>, when it is constructed.
\<close>

definition new_Item ::
  "env \<Rightarrow> string option \<Rightarrow> string option \<Rightarrow> string option \<Rightarrow> string option \<Rightarrow>
   string option \<Rightarrow> string option \<Rightarrow> Item" where
  "new_Item e n d l c t u =
     \<lparr>oid = new_id e, item_name = n, description = d, location = l, contact_number = c,
      type = t, image_url = u, reported_at = clock e\<rparr>"

definition save :: "env \<Rightarrow> Item \<Rightarrow> Item list \<Rightarrow> js_error + Item list" where
  "save e doc coll =
     (case db_fault e of Some m \<Rightarrow> Inl (MongoError m) | None \<Rightarrow> Inr (coll @ [doc]))"

text \<open>
  \<open>Item.find().sort({ reported_at: -1 })\<close>: every document, the largest \<open>reported_at\<close>
  first. Documents with equal dates are left in insertion order here; MongoDB promises
  nothing about them.
\<close>

definition find_sort :: "env \<Rightarrow> Item list \<Rightarrow> js_error + Item list" where
  "find_sort e coll =
     (case db_fault e of
        Some m \<Rightarrow> Inl (MongoError m)
      | None \<Rightarrow> Inr (sort_key (\<lambda>x. - reported_at x) coll))"

fun delete_first :: "ObjectId \<Rightarrow> Item list \<Rightarrow> Item list" where
  "delete_first i [] = []"
| "delete_first i (x # xs) = (if oid x = i then xs else x # delete_first i xs)"

text \<open>
  \<open>Item.findByIdAndDelete(id)\<close>: the id is cast first, in the client; the database then
  deletes the document with that \<open>_id\<close>, if there is one, and returns it (or null).
\<close>

definition findByIdAndDelete ::
  "env \<Rightarrow> string \<Rightarrow> Item list \<Rightarrow> js_error + (Item option \<times> Item list)" where
  "findByIdAndDelete e id_text coll =
     (case castObjectId id_text of
        None \<Rightarrow> Inl (CastError id_text)
      | Some i \<Rightarrow>
          (case db_fault e of
             Some m \<Rightarrow> Inl (MongoError m)
           | None \<Rightarrow> Inr (find (\<lambda>x. oid x = i) coll, delete_first i coll)))"

subsection \<open>Multer\<close>

text \<open>
  \<open>storage.filename\<close> and \<open>upload.single("image")\<close>: a request that is not multipart
  passes with the body \<open>express.json\<close> left; the text fields of a multipart form become
  \<open>req.body\<close>; a file is written to the upload directory under the name the callback
  computes, and a failed write is passed to \<open>next\<close>.
\<close>

definition uniqueName :: "env \<Rightarrow> upload \<Rightarrow> string" where
  "uniqueName e f = number_to_string (upload_clock e) @ extname (originalname f)"

definition upload_single ::
  "env \<Rightarrow> (string \<rightharpoonup> string) \<Rightarrow> payload \<Rightarrow> state \<Rightarrow>
   state \<times> (js_error + (string \<rightharpoonup> string) \<times> multer_file option)" where
  "upload_single e json_body p st =
     (case p of
        MultipartPayload form None \<Rightarrow> (st, Inr (form, None))
      | MultipartPayload form (Some f) \<Rightarrow>
          (case disk_fault e of
             Some m \<Rightarrow> (st, Inl (DiskError m))
           | None \<Rightarrow>
               (st\<lparr>uploads := (uploads st)(uniqueName e f \<mapsto> content f)\<rparr>,
                Inr (form, Some \<lparr>file_originalname = originalname f, filename = uniqueName e f\<rparr>)))
      | _ \<Rightarrow> (st, Inr (json_body, None)))"

subsection \<open>The route handlers\<close>

definition baseUrl :: "config \<Rightarrow> string" where
  "baseUrl cfg =
     (case RENDER_EXTERNAL_URL cfg of
        Some u \<Rightarrow> if u = [] then ''https://lost-found-backend-lrjz.onrender.com'' else u
      | None \<Rightarrow> ''https://lost-found-backend-lrjz.onrender.com'')"

definition imageUrl :: "config \<Rightarrow> multer_file option \<Rightarrow> string option" where
  "imageUrl cfg file =
     (case file of Some f \<Rightarrow> Some (baseUrl cfg @ ''/uploads/'' @ filename f) | None \<Rightarrow> None)"

definition post_items ::
  "config \<Rightarrow> (string \<rightharpoonup> string) \<Rightarrow> multer_file option \<Rightarrow> env \<Rightarrow> state \<Rightarrow> state \<times> handled" where
  "post_items cfg req_body req_file e st =
     (let newItem = new_Item e (req_body ''item_name'') (req_body ''description'')
                      (req_body ''location'') (req_body ''contact_number'') (req_body ''type'')
                      (imageUrl cfg req_file)
      in case save e newItem (items st) of
           Inr coll \<Rightarrow>
             (st\<lparr>items := coll\<rparr>,
              Respond \<lparr>status = 201, body = Saved (check_mark @ '' Item saved successfully'') newItem\<rparr>)
         | Inl err \<Rightarrow> (st, Respond \<lparr>status = 500, body = Error ''Failed to save item''\<rparr>))"

definition get_items :: "env \<Rightarrow> state \<Rightarrow> state \<times> handled" where
  "get_items e st =
     (case find_sort e (items st) of
        Inr found \<Rightarrow> (st, Respond \<lparr>status = 200, body = Items found\<rparr>)
      | Inl err \<Rightarrow> (st, Respond \<lparr>status = 500, body = Error ''Failed to fetch items''\<rparr>))"

definition delete_items :: "string \<Rightarrow> env \<Rightarrow> state \<Rightarrow> state \<times> handled" where
  "delete_items id_text e st =
     (case findByIdAndDelete e id_text (items st) of
        Inr (doc, coll) \<Rightarrow>
          (st\<lparr>items := coll\<rparr>,
           Respond \<lparr>status = 200, body = Message (wastebasket @ '' Item deleted successfully'')\<rparr>)
      | Inl err \<Rightarrow> (st, Respond \<lparr>status = 500, body = Error ''Failed to delete item''\<rparr>))"

definition get_health :: handled where
  "get_health = Respond \<lparr>status = 200, body = Status ''ok''\<rparr>"

definition get_root :: handled where
  "get_root = Respond \<lparr>status = 200,
                        body = Text (rocket @ '' Lost & Found API is running successfully!'')\<rparr>"

subsection \<open>The application\<close>

text \<open>
  \<open>express.json({ limit: "10mb" })\<close>, the first middleware: a JSON body that does not
  parse is a SyntaxError carrying the body, one over the limit a 413 error; a parsed body
  becomes \<open>req.body\<close>, and without a JSON body \<open>req.body\<close> is the empty object.
\<close>

definition express_json :: "payload \<Rightarrow> js_error + (string \<rightharpoonup> string)" where
  "express_json p =
     (case p of
        JsonPayload (Unparsable text) \<Rightarrow> Inl (JsonSyntaxError text)
      | JsonPayload Oversize \<Rightarrow> Inl PayloadTooLarge
      | JsonPayload (Parsed obj) \<Rightarrow> Inr obj
      | _ \<Rightarrow> Inr Map.empty)"

fun instanceof_SyntaxError :: "js_error \<Rightarrow> bool" where
  "instanceof_SyntaxError (JsonSyntaxError text) = True"
| "instanceof_SyntaxError err = False"

fun body_in :: "js_error \<Rightarrow> bool" where
  "body_in (JsonSyntaxError text) = True"
| "body_in err = False"

text \<open>The error-handling middleware, registered last. It calls \<open>next()\<close> with no argument.\<close>

definition error_handler :: "js_error \<Rightarrow> handled" where
  "error_handler err =
     (if instanceof_SyntaxError err \<and> body_in err
      then Respond \<lparr>status = 400, body = Error ''Invalid JSON format''\<rparr>
      else Next)"

text \<open>
  Express ends a request no layer has answered: 404 when no error is pending, the status
  of the error (500 unless the error carries one) otherwise.
\<close>

fun error_status :: "js_error \<Rightarrow> nat" where
  "error_status (JsonSyntaxError text) = 400"
| "error_status PayloadTooLarge = 413"
| "error_status err = 500"

definition finalhandler :: "route \<Rightarrow> handled \<Rightarrow> response" where
  "finalhandler r h =
     (case h of
        Respond resp \<Rightarrow> resp
      | Next \<Rightarrow> \<lparr>status = 404, body = Cannot r\<rparr>
      | NextErr err \<Rightarrow> \<lparr>status = error_status err, body = ErrorPage\<rparr>)"

text \<open>
  An error passed to \<open>next\<close> skips every layer up to the next error-handling middleware:
  here \<open>error_handler\<close>, after which only Express's own end of the chain is left.
\<close>

definition on_error :: "route \<Rightarrow> js_error \<Rightarrow> response" where
  "on_error r err =
     finalhandler r (error_handler err)"

text \<open>
  The layers in the order server.js registers them. The two CORS layers and the static
  layer of /uploads pass every request of the modelled routes on unchanged (the headers
  they set are not modelled).
\<close>

definition app :: "config \<Rightarrow> request \<Rightarrow> env \<Rightarrow> state \<Rightarrow> state \<times> response" where
  "app cfg req e st =
     (case express_json (payload req) of
        Inl err \<Rightarrow> (st, on_error (route req) err)
      | Inr json_body \<Rightarrow>
          (case route req of
             POST_items \<Rightarrow>
               (case upload_single e json_body (payload req) st of
                  (st1, Inl err) \<Rightarrow> (st1, on_error POST_items err)
                | (st1, Inr (req_body, req_file)) \<Rightarrow>
                    (case post_items cfg req_body req_file e st1 of
                       (st2, h) \<Rightarrow> (st2, finalhandler POST_items h)))
           | GET_items \<Rightarrow>
               (case get_items e st of (st1, h) \<Rightarrow> (st1, finalhandler GET_items h))
           | DELETE_items id_text \<Rightarrow>
               (case delete_items id_text e st of
                  (st1, h) \<Rightarrow> (st1, finalhandler (DELETE_items id_text) h))
           | GET_health \<Rightarrow> (st, finalhandler GET_health get_health)
           | GET_root \<Rightarrow> (st, finalhandler GET_root get_root)
           | Other_route \<Rightarrow> (st, finalhandler Other_route Next)))"

text \<open>Requests handled one after the other by the one process, each with its own inputs.\<close>

fun run :: "config \<Rightarrow> (request \<times> env) list \<Rightarrow> state \<Rightarrow> state" where
  "run cfg [] st = st"
| "run cfg ((req, e) # rest) st = run cfg rest (fst (app cfg req e st))"

section \<open>Properties\<close>

subsection \<open>The application, route by route\<close>

lemma app_get:
  "app cfg \<lparr>route = GET_items, payload = NoPayload\<rparr> e st =
     (fst (get_items e st), finalhandler GET_items (snd (get_items e st)))"
  by (simp add: app_def express_json_def split: prod.splits)

lemma app_delete:
  "app cfg \<lparr>route = DELETE_items id_text, payload = NoPayload\<rparr> e st =
     (fst (delete_items id_text e st),
      finalhandler (DELETE_items id_text) (snd (delete_items id_text e st)))"
  by (simp add: app_def express_json_def split: prod.splits)

lemma app_post_form:
  "app cfg \<lparr>route = POST_items, payload = MultipartPayload form None\<rparr> e st =
     (fst (post_items cfg form None e st),
      finalhandler POST_items (snd (post_items cfg form None e st)))"
  by (simp add: app_def express_json_def upload_single_def split: prod.splits)

lemma app_post_json:
  "app cfg \<lparr>route = POST_items, payload = JsonPayload (Parsed obj)\<rparr> e st =
     (fst (post_items cfg obj None e st),
      finalhandler POST_items (snd (post_items cfg obj None e st)))"
  by (simp add: app_def express_json_def upload_single_def split: prod.splits)

lemma app_post_empty:
  "app cfg \<lparr>route = POST_items, payload = NoPayload\<rparr> e st =
     (fst (post_items cfg Map.empty None e st),
      finalhandler POST_items (snd (post_items cfg Map.empty None e st)))"
  by (simp add: app_def express_json_def upload_single_def split: prod.splits)

subsection \<open>Listing\<close>

lemma find_sort_ok:
  "find_sort (e\<lparr>db_fault := None\<rparr>) coll = Inr (sort_key (\<lambda>x. - reported_at x) coll)"
  by (simp add: find_sort_def)

lemma newest_first_sorted:
  "sorted_wrt (\<lambda>a b. reported_at b \<le> reported_at a) (sort_key (\<lambda>x. - reported_at x) coll)"
proof -
  have "sorted (map (\<lambda>x. - reported_at x) (sort_key (\<lambda>x. - reported_at x) coll))"
    by (rule sorted_sort_key)
  then show ?thesis
    by (simp add: sorted_wrt_map)
qed

lemma get_items_ok:
  "get_items (e\<lparr>db_fault := None\<rparr>) st =
     (st, Respond \<lparr>status = 200, body = Items (sort_key (\<lambda>x. - reported_at x) (items st))\<rparr>)"
  by (simp add: get_items_def find_sort_ok)

lemma three_reports_listed:
  "snd (app cfg \<lparr>route = GET_items, payload = NoPayload\<rparr>
          \<lparr>upload_clock = 4, clock = 4, new_id = 4, disk_fault = None, db_fault = None\<rparr>
          (run cfg
             [(\<lparr>route = POST_items, payload = MultipartPayload [''item_name'' \<mapsto> ''A''] None\<rparr>,
               \<lparr>upload_clock = 1, clock = 1, new_id = 1, disk_fault = None, db_fault = None\<rparr>),
              (\<lparr>route = POST_items, payload = MultipartPayload [''item_name'' \<mapsto> ''B''] None\<rparr>,
               \<lparr>upload_clock = 2, clock = 2, new_id = 2, disk_fault = None, db_fault = None\<rparr>),
              (\<lparr>route = POST_items, payload = MultipartPayload [''item_name'' \<mapsto> ''C''] None\<rparr>,
               \<lparr>upload_clock = 3, clock = 3, new_id = 3, disk_fault = None, db_fault = None\<rparr>)]
             \<lparr>items = [], uploads = Map.empty\<rparr>)) =
   \<lparr>status = 200,
    body = Items
      [\<lparr>oid = 3, item_name = Some ''C'', description = None, location = None,
        contact_number = None, type = None, image_url = None, reported_at = 3\<rparr>,
       \<lparr>oid = 2, item_name = Some ''B'', description = None, location = None,
        contact_number = None, type = None, image_url = None, reported_at = 2\<rparr>,
       \<lparr>oid = 1, item_name = Some ''A'', description = None, location = None,
        contact_number = None, type = None, image_url = None, reported_at = 1\<rparr>]\<rparr>"
  by (simp add: app_def express_json_def upload_single_def post_items_def new_Item_def save_def
      imageUrl_def get_items_def find_sort_def finalhandler_def Let_def)

text \<open>
  Claim C1. Whatever the collection holds, GET /api/items (the database answering) leaves
  the state as it is and responds 200 with a list that holds every stored Item, each as
  often as it is stored, ordered by \<open>reported_at\<close> descending. After three reports made
  at the times 1, 2 and 3 the listing is the third, the second, the first.
\<close>

theorem list_newest_first:
  "fst (app cfg \<lparr>route = GET_items, payload = NoPayload\<rparr> (e\<lparr>db_fault := None\<rparr>) st) = st \<and>
   (\<exists>found.
      snd (app cfg \<lparr>route = GET_items, payload = NoPayload\<rparr> (e\<lparr>db_fault := None\<rparr>) st) =
        \<lparr>status = 200, body = Items found\<rparr> \<and>
      mset found = mset (items st) \<and>
      sorted_wrt (\<lambda>a b. reported_at b \<le> reported_at a) found) \<and>
   snd (app cfg \<lparr>route = GET_items, payload = NoPayload\<rparr>
          \<lparr>upload_clock = 4, clock = 4, new_id = 4, disk_fault = None, db_fault = None\<rparr>
          (run cfg
             [(\<lparr>route = POST_items, payload = MultipartPayload [''item_name'' \<mapsto> ''A''] None\<rparr>,
               \<lparr>upload_clock = 1, clock = 1, new_id = 1, disk_fault = None, db_fault = None\<rparr>),
              (\<lparr>route = POST_items, payload = MultipartPayload [''item_name'' \<mapsto> ''B''] None\<rparr>,
               \<lparr>upload_clock = 2, clock = 2, new_id = 2, disk_fault = None, db_fault = None\<rparr>),
              (\<lparr>route = POST_items, payload = MultipartPayload [''item_name'' \<mapsto> ''C''] None\<rparr>,
               \<lparr>upload_clock = 3, clock = 3, new_id = 3, disk_fault = None, db_fault = None\<rparr>)]
             \<lparr>items = [], uploads = Map.empty\<rparr>)) =
   \<lparr>status = 200,
    body = Items
      [\<lparr>oid = 3, item_name = Some ''C'', description = None, location = None,
        contact_number = None, type = None, image_url = None, reported_at = 3\<rparr>,
       \<lparr>oid = 2, item_name = Some ''B'', description = None, location = None,
        contact_number = None, type = None, image_url = None, reported_at = 2\<rparr>,
       \<lparr>oid = 1, item_name = Some ''A'', description = None, location = None,
        contact_number = None, type = None, image_url = None, reported_at = 1\<rparr>]\<rparr>"
proof (intro conjI)
  show "fst (app cfg \<lparr>route = GET_items, payload = NoPayload\<rparr> (e\<lparr>db_fault := None\<rparr>) st) = st"
    by (simp add: app_get get_items_ok)
  show "\<exists>found.
      snd (app cfg \<lparr>route = GET_items, payload = NoPayload\<rparr> (e\<lparr>db_fault := None\<rparr>) st) =
        \<lparr>status = 200, body = Items found\<rparr> \<and>
      mset found = mset (items st) \<and>
      sorted_wrt (\<lambda>a b. reported_at b \<le> reported_at a) found"
    by (simp add: app_get get_items_ok finalhandler_def newest_first_sorted)
qed (rule three_reports_listed)

subsection \<open>Deleting\<close>

lemma delete_first_absent: "i \<notin> oid ` set xs \<Longrightarrow> delete_first i xs = xs"
  by (induction xs) auto

lemma delete_first_others:
  "filter (\<lambda>x. oid x \<noteq> i) (delete_first i xs) = filter (\<lambda>x. oid x \<noteq> i) xs"
  by (induction xs) auto

lemma delete_first_present:
  "i \<in> oid ` set xs \<Longrightarrow> \<exists>x. oid x = i \<and> mset xs = add_mset x (mset (delete_first i xs))"
  by (induction xs) auto

lemma delete_first_distinct:
  "distinct (map oid xs) \<Longrightarrow> i \<notin> oid ` set (delete_first i xs)"
  by (induction xs) auto

lemma set_delete_first: "set (delete_first i xs) \<subseteq> set xs"
  by (induction xs) auto

lemma sorted_wrt_delete_first: "sorted_wrt P xs \<Longrightarrow> sorted_wrt P (delete_first i xs)"
  using set_delete_first by (induction xs) auto

lemma delete_items_malformed:
  "castObjectId id_text = None \<Longrightarrow>
   delete_items id_text e st =
     (st, Respond \<lparr>status = 500, body = Error ''Failed to delete item''\<rparr>)"
  by (simp add: delete_items_def findByIdAndDelete_def)

lemma delete_items_fault:
  "delete_items id_text (e\<lparr>db_fault := Some m\<rparr>) st =
     (st, Respond \<lparr>status = 500, body = Error ''Failed to delete item''\<rparr>)"
  by (simp add: delete_items_def findByIdAndDelete_def split: option.splits)

lemma delete_items_ok:
  "castObjectId id_text = Some i \<Longrightarrow>
   delete_items id_text (e\<lparr>db_fault := None\<rparr>) st =
     (st\<lparr>items := delete_first i (items st)\<rparr>,
      Respond \<lparr>status = 200, body = Message (wastebasket @ '' Item deleted successfully'')\<rparr>)"
  by (simp add: delete_items_def findByIdAndDelete_def)

lemma delete_items_responds: "\<exists>r. snd (delete_items id_text e st) = Respond r"
  by (simp add: delete_items_def findByIdAndDelete_def split: option.splits)

lemma delete_items_state:
  "fst (delete_items id_text e st) =
     (case castObjectId id_text of
        None \<Rightarrow> st
      | Some i \<Rightarrow> (case db_fault e of Some m \<Rightarrow> st | None \<Rightarrow> st\<lparr>items := delete_first i (items st)\<rparr>))"
  by (simp add: delete_items_def findByIdAndDelete_def split: option.splits)

lemma cast_abc: "castObjectId ''abc'' = None"
  by (simp add: castObjectId_def)

lemma cast_sample: "castObjectId ''507f1f77bcf86cd799439011'' = Some 0x507f1f77bcf86cd799439011"
  by (simp add: castObjectId_def from_hex_def hex_digit_def)

text \<open>
  Claim C2, as the spec states it, at a malformed id: \<open>abc\<close> is no ObjectId, and
  DELETE /api/items/abc on the empty collection is answered by the catch branch, with 500
  and the error object, not with the confirmation of a deletion.
\<close>

theorem delete_malformed_id_counterexample:
  "castObjectId ''abc'' = None \<and>
   snd (app \<lparr>RENDER_EXTERNAL_URL = None\<rparr> \<lparr>route = DELETE_items ''abc'', payload = NoPayload\<rparr>
          \<lparr>upload_clock = 1, clock = 1, new_id = 1, disk_fault = None, db_fault = None\<rparr>
          \<lparr>items = [], uploads = Map.empty\<rparr>) =
     \<lparr>status = 500, body = Error ''Failed to delete item''\<rparr> \<and>
   snd (app \<lparr>RENDER_EXTERNAL_URL = None\<rparr> \<lparr>route = DELETE_items ''abc'', payload = NoPayload\<rparr>
          \<lparr>upload_clock = 1, clock = 1, new_id = 1, disk_fault = None, db_fault = None\<rparr>
          \<lparr>items = [], uploads = Map.empty\<rparr>) \<noteq>
     \<lparr>status = 200, body = Message (wastebasket @ '' Item deleted successfully'')\<rparr>"
  by (simp add: cast_abc app_delete delete_items_malformed finalhandler_def)

text \<open>
  Claim C2, amended. The delete handler always ends by sending a response: no error
  leaves it. With the database answering, an id of the identifier shape that no stored
  Item has is answered with the 200 confirmation, the one a deletion that found its Item
  gets, and the state is as before. A malformed id fails in the cast; the handler catches
  the CastError, the state is as before, and the response is 500 with the fixed error
  object.
\<close>

theorem delete_absent_or_malformed:
  "(\<exists>r. snd (delete_items id_text e st) = Respond r) \<and>
   (castObjectId id_text = Some i \<and> i \<notin> oid ` set (items st) \<longrightarrow>
      app cfg \<lparr>route = DELETE_items id_text, payload = NoPayload\<rparr> (e\<lparr>db_fault := None\<rparr>) st =
        (st, \<lparr>status = 200, body = Message (wastebasket @ '' Item deleted successfully'')\<rparr>)) \<and>
   (castObjectId id_text = Some i \<longrightarrow>
      snd (app cfg \<lparr>route = DELETE_items id_text, payload = NoPayload\<rparr> (e\<lparr>db_fault := None\<rparr>) st) =
        \<lparr>status = 200, body = Message (wastebasket @ '' Item deleted successfully'')\<rparr>) \<and>
   (castObjectId id_text = None \<longrightarrow>
      app cfg \<lparr>route = DELETE_items id_text, payload = NoPayload\<rparr> e st =
        (st, \<lparr>status = 500, body = Error ''Failed to delete item''\<rparr>))"
proof (intro conjI impI)
  show "\<exists>r. snd (delete_items id_text e st) = Respond r"
    by (rule delete_items_responds)
next
  assume a: "castObjectId id_text = Some i \<and> i \<notin> oid ` set (items st)"
  then have "delete_first i (items st) = items st"
    by (simp add: delete_first_absent)
  with a show "app cfg \<lparr>route = DELETE_items id_text, payload = NoPayload\<rparr> (e\<lparr>db_fault := None\<rparr>) st =
        (st, \<lparr>status = 200, body = Message (wastebasket @ '' Item deleted successfully'')\<rparr>)"
    by (simp add: app_delete delete_items_ok finalhandler_def)
next
  assume "castObjectId id_text = Some i"
  then show "snd (app cfg \<lparr>route = DELETE_items id_text, payload = NoPayload\<rparr> (e\<lparr>db_fault := None\<rparr>) st) =
        \<lparr>status = 200, body = Message (wastebasket @ '' Item deleted successfully'')\<rparr>"
    by (simp add: app_delete delete_items_ok finalhandler_def)
next
  assume "castObjectId id_text = None"
  then show "app cfg \<lparr>route = DELETE_items id_text, payload = NoPayload\<rparr> e st =
        (st, \<lparr>status = 500, body = Error ''Failed to delete item''\<rparr>)"
    by (simp add: app_delete delete_items_malformed finalhandler_def)
qed

theorem delete_absent_or_malformed_witness:
  "castObjectId ''507f1f77bcf86cd799439011'' = Some 0x507f1f77bcf86cd799439011 \<and>
   castObjectId ''not-an-id'' = None \<and>
   app \<lparr>RENDER_EXTERNAL_URL = None\<rparr>
     \<lparr>route = DELETE_items ''507f1f77bcf86cd799439011'', payload = NoPayload\<rparr>
     \<lparr>upload_clock = 9, clock = 9, new_id = 2, disk_fault = None, db_fault = None\<rparr>
     \<lparr>items = [\<lparr>oid = 1, item_name = Some ''keys'', description = None, location = None,
                 contact_number = None, type = Some ''lost'', image_url = None, reported_at = 5\<rparr>],
      uploads = Map.empty\<rparr> =
     (\<lparr>items = [\<lparr>oid = 1, item_name = Some ''keys'', description = None, location = None,
                  contact_number = None, type = Some ''lost'', image_url = None, reported_at = 5\<rparr>],
       uploads = Map.empty\<rparr>,
      \<lparr>status = 200, body = Message (wastebasket @ '' Item deleted successfully'')\<rparr>) \<and>
   app \<lparr>RENDER_EXTERNAL_URL = None\<rparr>
     \<lparr>route = DELETE_items ''not-an-id'', payload = NoPayload\<rparr>
     \<lparr>upload_clock = 9, clock = 9, new_id = 2, disk_fault = None, db_fault = None\<rparr>
     \<lparr>items = [\<lparr>oid = 1, item_name = Some ''keys'', description = None, location = None,
                 contact_number = None, type = Some ''lost'', image_url = None, reported_at = 5\<rparr>],
      uploads = Map.empty\<rparr> =
     (\<lparr>items = [\<lparr>oid = 1, item_name = Some ''keys'', description = None, location = None,
                  contact_number = None, type = Some ''lost'', image_url = None, reported_at = 5\<rparr>],
       uploads = Map.empty\<rparr>,
      \<lparr>status = 500, body = Error ''Failed to delete item''\<rparr>)"
proof -
  have c1: "castObjectId ''507f1f77bcf86cd799439011'' = Some 0x507f1f77bcf86cd799439011"
    by (rule cast_sample)
  have c2: "castObjectId ''not-an-id'' = None"
    by (simp add: castObjectId_def)
  note t1 = delete_absent_or_malformed
    [where id_text = "''507f1f77bcf86cd799439011''" and i = "0x507f1f77bcf86cd799439011"
       and cfg = "\<lparr>RENDER_EXTERNAL_URL = None\<rparr>"
       and e = "\<lparr>upload_clock = 9, clock = 9, new_id = 2, disk_fault = None, db_fault = None\<rparr>"
       and st = "\<lparr>items = [\<lparr>oid = 1, item_name = Some ''keys'', description = None, location = None,
                 contact_number = None, type = Some ''lost'', image_url = None, reported_at = 5\<rparr>],
      uploads = Map.empty\<rparr>"]
  note t2 = delete_absent_or_malformed
    [where id_text = "''not-an-id''" and i = 0
       and cfg = "\<lparr>RENDER_EXTERNAL_URL = None\<rparr>"
       and e = "\<lparr>upload_clock = 9, clock = 9, new_id = 2, disk_fault = None, db_fault = None\<rparr>"
       and st = "\<lparr>items = [\<lparr>oid = 1, item_name = Some ''keys'', description = None, location = None,
                 contact_number = None, type = Some ''lost'', image_url = None, reported_at = 5\<rparr>],
      uploads = Map.empty\<rparr>"]
  from c1 c2 t1 t2 show ?thesis
    by simp
qed

text \<open>
  Claim C3. A delete request never touches the upload directory, and it leaves every Item
  with another identifier where it was. If the id does not cast, or no stored Item has
  it, the state is unchanged. If a stored Item has it and the database answers, the
  collection loses exactly one Item, one with that identifier; with identifiers unique,
  no Item with it is left.
\<close>

theorem delete_frame:
  "uploads (fst (app cfg \<lparr>route = DELETE_items id_text, payload = NoPayload\<rparr> e st)) = uploads st \<and>
   (castObjectId id_text = None \<longrightarrow>
      fst (app cfg \<lparr>route = DELETE_items id_text, payload = NoPayload\<rparr> e st) = st) \<and>
   (castObjectId id_text = Some i \<longrightarrow>
      filter (\<lambda>x. oid x \<noteq> i)
        (items (fst (app cfg \<lparr>route = DELETE_items id_text, payload = NoPayload\<rparr> e st))) =
      filter (\<lambda>x. oid x \<noteq> i) (items st)) \<and>
   (castObjectId id_text = Some i \<and> i \<notin> oid ` set (items st) \<longrightarrow>
      fst (app cfg \<lparr>route = DELETE_items id_text, payload = NoPayload\<rparr> e st) = st) \<and>
   (castObjectId id_text = Some i \<and> i \<in> oid ` set (items st) \<and> db_fault e = None \<longrightarrow>
      (\<exists>x. oid x = i \<and>
         mset (items st) =
           add_mset x
             (mset (items (fst (app cfg \<lparr>route = DELETE_items id_text, payload = NoPayload\<rparr> e st)))))) \<and>
   (castObjectId id_text = Some i \<and> distinct (map oid (items st)) \<and> db_fault e = None \<longrightarrow>
      i \<notin> oid ` set
        (items (fst (app cfg \<lparr>route = DELETE_items id_text, payload = NoPayload\<rparr> e st))))"
proof -
  let ?st' = "fst (app cfg \<lparr>route = DELETE_items id_text, payload = NoPayload\<rparr> e st)"
  have st': "?st' =
     (case castObjectId id_text of
        None \<Rightarrow> st
      | Some i \<Rightarrow>
          (case db_fault e of
             Some m \<Rightarrow> st
           | None \<Rightarrow> st\<lparr>items := delete_first i (items st)\<rparr>))"
    by (simp add: app_delete delete_items_state)
  have "uploads ?st' = uploads st"
    by (simp add: st' split: option.splits)
  moreover have "castObjectId id_text = None \<longrightarrow> ?st' = st"
    by (simp add: st')
  moreover have "castObjectId id_text = Some i \<longrightarrow>
      filter (\<lambda>x. oid x \<noteq> i) (items ?st') = filter (\<lambda>x. oid x \<noteq> i) (items st)"
    by (simp add: st' delete_first_others split: option.splits)
  moreover have "castObjectId id_text = Some i \<and> i \<notin> oid ` set (items st) \<longrightarrow> ?st' = st"
    by (simp add: st' delete_first_absent split: option.splits)
  moreover have "castObjectId id_text = Some i \<and> i \<in> oid ` set (items st) \<and> db_fault e = None \<longrightarrow>
      (\<exists>x. oid x = i \<and> mset (items st) = add_mset x (mset (items ?st')))"
    using delete_first_present [of i "items st"] by (simp add: st')
  moreover have "castObjectId id_text = Some i \<and> distinct (map oid (items st)) \<and> db_fault e = None \<longrightarrow>
      i \<notin> oid ` set (items ?st')"
    using delete_first_distinct [of "items st" i] by (simp add: st')
  ultimately show ?thesis
    by blast
qed

theorem delete_frame_witness:
  "castObjectId ''507f1f77bcf86cd799439011'' = Some 0x507f1f77bcf86cd799439011 \<and>
   fst (app \<lparr>RENDER_EXTERNAL_URL = None\<rparr>
     \<lparr>route = DELETE_items ''507f1f77bcf86cd799439011'', payload = NoPayload\<rparr>
     \<lparr>upload_clock = 9, clock = 9, new_id = 2, disk_fault = None, db_fault = None\<rparr>
     \<lparr>items = [\<lparr>oid = 1, item_name = Some ''keys'', description = None, location = None,
                 contact_number = None, type = Some ''lost'', image_url = None, reported_at = 5\<rparr>],
      uploads = Map.empty\<rparr>) =
     \<lparr>items = [\<lparr>oid = 1, item_name = Some ''keys'', description = None, location = None,
                 contact_number = None, type = Some ''lost'', image_url = None, reported_at = 5\<rparr>],
      uploads = Map.empty\<rparr> \<and>
   0x507f1f77bcf86cd799439011 \<notin> oid ` set (items (fst (app \<lparr>RENDER_EXTERNAL_URL = None\<rparr>
     \<lparr>route = DELETE_items ''507f1f77bcf86cd799439011'', payload = NoPayload\<rparr>
     \<lparr>upload_clock = 9, clock = 9, new_id = 2, disk_fault = None, db_fault = None\<rparr>
     \<lparr>items = [\<lparr>oid = 1, item_name = Some ''keys'', description = None, location = None,
                 contact_number = None, type = Some ''lost'', image_url = None, reported_at = 5\<rparr>,
                \<lparr>oid = 0x507f1f77bcf86cd799439011, item_name = Some ''umbrella'', description = None,
                 location = None, contact_number = None, type = Some ''found'', image_url = None,
                 reported_at = 6\<rparr>],
      uploads = Map.empty\<rparr>)))"
proof -
  have c: "castObjectId ''507f1f77bcf86cd799439011'' = Some 0x507f1f77bcf86cd799439011"
    by (rule cast_sample)
  note t1 = delete_frame
    [where id_text = "''507f1f77bcf86cd799439011''" and i = "0x507f1f77bcf86cd799439011"
       and cfg = "\<lparr>RENDER_EXTERNAL_URL = None\<rparr>"
       and e = "\<lparr>upload_clock = 9, clock = 9, new_id = 2, disk_fault = None, db_fault = None\<rparr>"
       and st = "\<lparr>items = [\<lparr>oid = 1, item_name = Some ''keys'', description = None, location = None,
                 contact_number = None, type = Some ''lost'', image_url = None, reported_at = 5\<rparr>],
      uploads = Map.empty\<rparr>"]
  note t2 = delete_frame
    [where id_text = "''507f1f77bcf86cd799439011''" and i = "0x507f1f77bcf86cd799439011"
       and cfg = "\<lparr>RENDER_EXTERNAL_URL = None\<rparr>"
       and e = "\<lparr>upload_clock = 9, clock = 9, new_id = 2, disk_fault = None, db_fault = None\<rparr>"
       and st = "\<lparr>items = [\<lparr>oid = 1, item_name = Some ''keys'', description = None, location = None,
                 contact_number = None, type = Some ''lost'', image_url = None, reported_at = 5\<rparr>,
                \<lparr>oid = 0x507f1f77bcf86cd799439011, item_name = Some ''umbrella'', description = None,
                 location = None, contact_number = None, type = Some ''found'', image_url = None,
                 reported_at = 6\<rparr>],
      uploads = Map.empty\<rparr>"]
  from c t1 t2 show ?thesis
    by simp
qed

subsection \<open>Reporting\<close>

lemma app_post_file:
  "disk_fault e = None \<Longrightarrow>
   app cfg \<lparr>route = POST_items, payload = MultipartPayload form (Some f)\<rparr> e st =
     (fst (post_items cfg form
             (Some \<lparr>file_originalname = originalname f, filename = uniqueName e f\<rparr>) e
             (st\<lparr>uploads := (uploads st)(uniqueName e f \<mapsto> content f)\<rparr>)),
      finalhandler POST_items
        (snd (post_items cfg form
               (Some \<lparr>file_originalname = originalname f, filename = uniqueName e f\<rparr>) e
               (st\<lparr>uploads := (uploads st)(uniqueName e f \<mapsto> content f)\<rparr>))))"
  by (simp add: app_def express_json_def upload_single_def split: prod.splits)

lemma post_items_saved:
  "db_fault e = None \<Longrightarrow>
   post_items cfg b f e st =
     (st\<lparr>items := items st @
          [\<lparr>oid = new_id e, item_name = b ''item_name'', description = b ''description'',
            location = b ''location'', contact_number = b ''contact_number'', type = b ''type'',
            image_url = imageUrl cfg f, reported_at = clock e\<rparr>]\<rparr>,
      Respond \<lparr>status = 201,
               body = Saved (check_mark @ '' Item saved successfully'')
                 \<lparr>oid = new_id e, item_name = b ''item_name'', description = b ''description'',
                  location = b ''location'', contact_number = b ''contact_number'',
                  type = b ''type'', image_url = imageUrl cfg f, reported_at = clock e\<rparr>\<rparr>)"
  by (simp add: post_items_def new_Item_def save_def Let_def)

lemma post_items_fault:
  "post_items cfg b f (e\<lparr>db_fault := Some m\<rparr>) st =
     (st, Respond \<lparr>status = 500, body = Error ''Failed to save item''\<rparr>)"
  by (simp add: post_items_def save_def Let_def)

lemma name_sample: "number_to_string 1730000000000 = ''1730000000000''"
  by (simp add: number_to_string_def digit_char_def)

lemma ext_sample: "extname ''photo.png'' = ''.png''"
  by code_simp

text \<open>
  Claim C4. A report without an image file, sent as a multipart form (the database
  answering), appends one Item to the collection and touches nothing else; the Item has
  the identifier generated for it, the text fields of the form, the time of the request
  and no image URL; the response is 201 with that Item. No file is not an error. A JSON
  body with the same fields is treated in the same way.
\<close>

theorem post_without_image:
  "app cfg \<lparr>route = POST_items, payload = MultipartPayload form None\<rparr> (e\<lparr>db_fault := None\<rparr>) st =
     (st\<lparr>items := items st @
          [\<lparr>oid = new_id e, item_name = form ''item_name'', description = form ''description'',
            location = form ''location'', contact_number = form ''contact_number'',
            type = form ''type'', image_url = None, reported_at = clock e\<rparr>]\<rparr>,
      \<lparr>status = 201,
       body = Saved (check_mark @ '' Item saved successfully'')
         \<lparr>oid = new_id e, item_name = form ''item_name'', description = form ''description'',
          location = form ''location'', contact_number = form ''contact_number'',
          type = form ''type'', image_url = None, reported_at = clock e\<rparr>\<rparr>) \<and>
   app cfg \<lparr>route = POST_items, payload = JsonPayload (Parsed form)\<rparr> (e\<lparr>db_fault := None\<rparr>) st =
     app cfg \<lparr>route = POST_items, payload = MultipartPayload form None\<rparr> (e\<lparr>db_fault := None\<rparr>) st"
  by (simp add: app_post_form app_post_json post_items_saved finalhandler_def imageUrl_def)

text \<open>
  Claim C5. A report with an image file (disk and database answering): the file is stored
  in the upload directory under the decimal digits of the current time followed by the
  extension of the original name; the Item's image URL is the base URL, \<open>/uploads/\<close> and
  that stored name; the response is 201 with the Item. The base URL is the configured
  RENDER_EXTERNAL_URL when it is set and not empty, and the built-in default when it is
  not set.
\<close>

theorem post_with_image:
  "app cfg \<lparr>route = POST_items, payload = MultipartPayload form (Some f)\<rparr>
     (e\<lparr>disk_fault := None, db_fault := None\<rparr>) st =
     (st\<lparr>uploads := (uploads st)
            (number_to_string (upload_clock e) @ extname (originalname f) \<mapsto> content f),
         items := items st @
          [\<lparr>oid = new_id e, item_name = form ''item_name'', description = form ''description'',
            location = form ''location'', contact_number = form ''contact_number'',
            type = form ''type'',
            image_url = Some (baseUrl cfg @ ''/uploads/'' @
                              number_to_string (upload_clock e) @ extname (originalname f)),
            reported_at = clock e\<rparr>]\<rparr>,
      \<lparr>status = 201,
       body = Saved (check_mark @ '' Item saved successfully'')
         \<lparr>oid = new_id e, item_name = form ''item_name'', description = form ''description'',
          location = form ''location'', contact_number = form ''contact_number'',
          type = form ''type'',
          image_url = Some (baseUrl cfg @ ''/uploads/'' @
                            number_to_string (upload_clock e) @ extname (originalname f)),
          reported_at = clock e\<rparr>\<rparr>) \<and>
   (RENDER_EXTERNAL_URL cfg = Some u \<and> u \<noteq> [] \<longrightarrow> baseUrl cfg = u) \<and>
   (RENDER_EXTERNAL_URL cfg = None \<longrightarrow>
      baseUrl cfg = ''https://lost-found-backend-lrjz.onrender.com'')"
  by (simp add: app_post_file post_items_saved finalhandler_def imageUrl_def uniqueName_def
      baseUrl_def)

theorem post_with_image_witness:
  "app \<lparr>RENDER_EXTERNAL_URL = Some ''https://api.example.org''\<rparr>
     \<lparr>route = POST_items,
      payload = MultipartPayload [''item_name'' \<mapsto> ''keys'', ''type'' \<mapsto> ''lost'']
                  (Some \<lparr>originalname = ''photo.png'', content = ''PNG''\<rparr>)\<rparr>
     \<lparr>upload_clock = 1730000000000, clock = 1730000000002, new_id = 7,
      disk_fault = None, db_fault = None\<rparr>
     \<lparr>items = [], uploads = Map.empty\<rparr> =
     (\<lparr>items = [\<lparr>oid = 7, item_name = Some ''keys'', description = None, location = None,
                  contact_number = None, type = Some ''lost'',
                  image_url = Some ''https://api.example.org/uploads/1730000000000.png'',
                  reported_at = 1730000000002\<rparr>],
       uploads = [''1730000000000.png'' \<mapsto> ''PNG'']\<rparr>,
      \<lparr>status = 201,
       body = Saved (check_mark @ '' Item saved successfully'')
                \<lparr>oid = 7, item_name = Some ''keys'', description = None, location = None,
                 contact_number = None, type = Some ''lost'',
                 image_url = Some ''https://api.example.org/uploads/1730000000000.png'',
                 reported_at = 1730000000002\<rparr>\<rparr>)"
  using post_with_image
    [where cfg = "\<lparr>RENDER_EXTERNAL_URL = Some ''https://api.example.org''\<rparr>"
       and u = "''https://api.example.org''"
       and form = "[''item_name'' \<mapsto> ''keys'', ''type'' \<mapsto> ''lost'']"
       and f = "\<lparr>originalname = ''photo.png'', content = ''PNG''\<rparr>"
       and e = "\<lparr>upload_clock = 1730000000000, clock = 1730000000002, new_id = 7,
                 disk_fault = None, db_fault = None\<rparr>"
       and st = "\<lparr>items = [], uploads = Map.empty\<rparr>"]
  by (simp add: name_sample ext_sample)



subsection \<open>Failures\<close>

lemma get_items_fault:
  "get_items (e\<lparr>db_fault := Some m\<rparr>) st =
     (st, Respond \<lparr>status = 500, body = Error ''Failed to fetch items''\<rparr>)"
  by (simp add: get_items_def find_sort_def)

text \<open>
  Claim C6. When the write of the image file fails, Multer passes the error to \<open>next\<close>,
  and the route handler does not run: no Item is created and the state is as before. The
  error reaches the error-handling middleware, which is not a JSON syntax error's and
  calls \<open>next()\<close> without it; the request then ends as one no layer has answered, with
  404 and not with 500.
\<close>

theorem upload_failure_not_found:
  "app cfg \<lparr>route = POST_items, payload = MultipartPayload form (Some f)\<rparr>
     (e\<lparr>disk_fault := Some m\<rparr>) st =
     (st, \<lparr>status = 404, body = Cannot POST_items\<rparr>) \<and>
   error_handler (DiskError m) = Next"
  by (simp add: app_def express_json_def upload_single_def on_error_def error_handler_def
      finalhandler_def)

text \<open>
  Claim C7. When the database call of a create, list or delete request fails, with
  whatever error text \<open>m\<close>, the response is 500 with the fixed error object of the route;
  nothing of \<open>m\<close> is in it. The collection is as before.
\<close>

theorem persistence_failure_generic:
  "app cfg \<lparr>route = POST_items, payload = MultipartPayload form None\<rparr> (e\<lparr>db_fault := Some m\<rparr>) st =
     (st, \<lparr>status = 500, body = Error ''Failed to save item''\<rparr>) \<and>
   app cfg \<lparr>route = POST_items, payload = JsonPayload (Parsed form)\<rparr> (e\<lparr>db_fault := Some m\<rparr>) st =
     (st, \<lparr>status = 500, body = Error ''Failed to save item''\<rparr>) \<and>
   snd (app cfg \<lparr>route = POST_items, payload = MultipartPayload form (Some f)\<rparr>
          (e\<lparr>disk_fault := None, db_fault := Some m\<rparr>) st) =
     \<lparr>status = 500, body = Error ''Failed to save item''\<rparr> \<and>
   app cfg \<lparr>route = GET_items, payload = NoPayload\<rparr> (e\<lparr>db_fault := Some m\<rparr>) st =
     (st, \<lparr>status = 500, body = Error ''Failed to fetch items''\<rparr>) \<and>
   app cfg \<lparr>route = DELETE_items id_text, payload = NoPayload\<rparr> (e\<lparr>db_fault := Some m\<rparr>) st =
     (st, \<lparr>status = 500, body = Error ''Failed to delete item''\<rparr>)"
proof (intro conjI)
  show "snd (app cfg \<lparr>route = POST_items, payload = MultipartPayload form (Some f)\<rparr>
          (e\<lparr>disk_fault := None, db_fault := Some m\<rparr>) st) =
     \<lparr>status = 500, body = Error ''Failed to save item''\<rparr>"
    by (simp add: app_post_file post_items_def save_def Let_def finalhandler_def)
qed (simp_all add: app_post_form app_post_json app_get app_delete post_items_fault
      get_items_fault delete_items_fault finalhandler_def)

text \<open>
  Claim C8. A request on any route whose JSON body does not parse is answered with 400 and
  the error object \<open>Invalid JSON format\<close>; the state is as before.
\<close>

theorem malformed_json_400:
  "app cfg \<lparr>route = r, payload = JsonPayload (Unparsable text)\<rparr> e st =
     (st, \<lparr>status = 400, body = Error ''Invalid JSON format''\<rparr>)"
  by (simp add: app_def express_json_def on_error_def error_handler_def finalhandler_def)

subsection \<open>Report times\<close>

text \<open>What one request can do to the collection.\<close>

lemma post_items_items:
  "items (fst (post_items cfg b f e st)) = items st \<or>
   (\<exists>x. reported_at x = clock e \<and> items (fst (post_items cfg b f e st)) = items st @ [x])"
  by (cases "db_fault e") (simp_all add: post_items_def save_def new_Item_def Let_def)

lemma upload_single_items: "items (fst (upload_single e b p st)) = items st"
  by (simp add: upload_single_def split: payload.splits option.splits)

lemma delete_items_items:
  "items (fst (delete_items id_text e st)) = items st \<or>
   (\<exists>i. items (fst (delete_items id_text e st)) = delete_first i (items st))"
  by (auto simp: delete_items_def findByIdAndDelete_def split: option.splits)

lemma get_items_state: "fst (get_items e st) = st"
  by (simp add: get_items_def split: sum.splits)

lemma app_items:
  "items (fst (app cfg req e st)) = items st \<or>
   (\<exists>x. reported_at x = clock e \<and> items (fst (app cfg req e st)) = items st @ [x]) \<or>
   (\<exists>i. items (fst (app cfg req e st)) = delete_first i (items st))"
proof (cases "express_json (payload req)")
  case (Inl err)
  then show ?thesis
    by (simp add: app_def)
next
  case (Inr json_body)
  show ?thesis
  proof (cases "route req")
    case POST_items
    obtain st1 r where up: "upload_single e json_body (payload req) st = (st1, r)"
      by (cases "upload_single e json_body (payload req) st")
    then have st1: "items st1 = items st"
      using upload_single_items [of e json_body "payload req" st] by simp
    show ?thesis
    proof (cases r)
      case (Inl err)
      with Inr POST_items up st1 show ?thesis
        by (simp add: app_def)
    next
      case (Inr bf)
      obtain b f where bf: "bf = (b, f)"
        by (cases bf)
      have "fst (app cfg req e st) = fst (post_items cfg b f e st1)"
        using \<open>express_json (payload req) = Inr json_body\<close> POST_items up Inr bf
        by (simp add: app_def split: prod.splits)
      with post_items_items [of cfg b f e st1] st1 show ?thesis
        by auto
    qed
  next
    case GET_items
    with Inr have "fst (app cfg req e st) = fst (get_items e st)"
      by (simp add: app_def split: prod.splits)
    then show ?thesis
      by (simp add: get_items_state)
  next
    case (DELETE_items id_text)
    with Inr have "fst (app cfg req e st) = fst (delete_items id_text e st)"
      by (simp add: app_def split: prod.splits)
    with delete_items_items [of id_text e st] show ?thesis
      by auto
  next
    case GET_health
    with Inr show ?thesis
      by (simp add: app_def)
  next
    case GET_root
    with Inr show ?thesis
      by (simp add: app_def)
  next
    case Other_route
    with Inr show ?thesis
      by (simp add: app_def)
  qed
qed

lemma app_keeps_order:
  assumes "sorted_wrt (\<lambda>a b. reported_at a \<le> reported_at b) (items st)"
    and "\<forall>x \<in> set (items st). reported_at x \<le> clock e"
  shows "sorted_wrt (\<lambda>a b. reported_at a \<le> reported_at b) (items (fst (app cfg req e st))) \<and>
         (\<forall>x \<in> set (items (fst (app cfg req e st))). reported_at x \<le> clock e)"
  using app_items [of cfg req e st]
proof (elim disjE exE conjE)
  assume "items (fst (app cfg req e st)) = items st"
  with assms show ?thesis
    by simp
next
  fix x
  assume "reported_at x = clock e" and "items (fst (app cfg req e st)) = items st @ [x]"
  with assms show ?thesis
    by (simp add: sorted_wrt_append)
next
  fix i
  assume del: "items (fst (app cfg req e st)) = delete_first i (items st)"
  with assms(1) have "sorted_wrt (\<lambda>a b. reported_at a \<le> reported_at b) (items (fst (app cfg req e st)))"
    by (simp add: sorted_wrt_delete_first)
  moreover from del assms(2) have "\<forall>x \<in> set (items (fst (app cfg req e st))). reported_at x \<le> clock e"
    using set_delete_first [of i "items st"] by auto
  ultimately show ?thesis
    by simp
qed

lemma run_keeps_order:
  "sorted_wrt (\<lambda>a b. reported_at a \<le> reported_at b) (items st) \<Longrightarrow>
   \<forall>x \<in> set (items st). \<forall>s \<in> set steps. reported_at x \<le> clock (snd s) \<Longrightarrow>
   sorted (map (\<lambda>s. clock (snd s)) steps) \<Longrightarrow>
   sorted_wrt (\<lambda>a b. reported_at a \<le> reported_at b) (items (run cfg steps st))"
proof (induction steps arbitrary: st)
  case Nil
  then show ?case
    by simp
next
  case (Cons s steps)
  obtain req e where s: "s = (req, e)"
    by (cases s)
  let ?st' = "fst (app cfg req e st)"
  from Cons.prems(2) s have below: "\<forall>x \<in> set (items st). reported_at x \<le> clock e"
    by simp
  from app_keeps_order [OF Cons.prems(1) below, of cfg req]
  have ord: "sorted_wrt (\<lambda>a b. reported_at a \<le> reported_at b) (items ?st')"
    and now: "\<forall>x \<in> set (items ?st'). reported_at x \<le> clock e"
    by simp_all
  from Cons.prems(3) s have later: "\<forall>t \<in> set steps. clock e \<le> clock (snd t)"
    and rest: "sorted (map (\<lambda>s. clock (snd s)) steps)"
    by simp_all
  from now later have "\<forall>x \<in> set (items ?st'). \<forall>t \<in> set steps. reported_at x \<le> clock (snd t)"
    by fastforce
  from Cons.IH [OF ord this rest] s show ?case
    by simp
qed

text \<open>
  Claim C9, as the spec states it, with one process handling its requests one after the
  other: \<open>reported_at\<close> is what \<open>Date.now()\<close> returns when the document is constructed,
  and that is the wall clock. Two reports in a row, the clock reading 5 at the first and 3
  at the second (it was set back in between), are stored with the times 5 and 3 in
  insertion order.
\<close>

theorem clock_steps_back_counterexample:
  "map reported_at (items (run \<lparr>RENDER_EXTERNAL_URL = None\<rparr>
     [(\<lparr>route = POST_items, payload = MultipartPayload [''item_name'' \<mapsto> ''A''] None\<rparr>,
       \<lparr>upload_clock = 5, clock = 5, new_id = 1, disk_fault = None, db_fault = None\<rparr>),
      (\<lparr>route = POST_items, payload = MultipartPayload [''item_name'' \<mapsto> ''B''] None\<rparr>,
       \<lparr>upload_clock = 3, clock = 3, new_id = 2, disk_fault = None, db_fault = None\<rparr>)]
     \<lparr>items = [], uploads = Map.empty\<rparr>)) = [5, 3] \<and>
   \<not> sorted_wrt (\<lambda>a b. reported_at a \<le> reported_at b) (items (run \<lparr>RENDER_EXTERNAL_URL = None\<rparr>
     [(\<lparr>route = POST_items, payload = MultipartPayload [''item_name'' \<mapsto> ''A''] None\<rparr>,
       \<lparr>upload_clock = 5, clock = 5, new_id = 1, disk_fault = None, db_fault = None\<rparr>),
      (\<lparr>route = POST_items, payload = MultipartPayload [''item_name'' \<mapsto> ''B''] None\<rparr>,
       \<lparr>upload_clock = 3, clock = 3, new_id = 2, disk_fault = None, db_fault = None\<rparr>)]
     \<lparr>items = [], uploads = Map.empty\<rparr>))"
  by (simp add: app_post_form post_items_saved)

text \<open>
  Claim C9, amended. Requests are handled one after the other from the empty collection,
  and the clock of the process does not go back from one request to the next. Then,
  whatever the requests are and whichever of them fail, the Items of the collection, in
  insertion order, have non-decreasing \<open>reported_at\<close>: of any two, the one inserted first
  has the smaller or the same time.
\<close>

theorem reported_at_monotone:
  "sorted (map (\<lambda>s. clock (snd s)) steps) \<longrightarrow>
   sorted_wrt (\<lambda>a b. reported_at a \<le> reported_at b)
     (items (run cfg steps \<lparr>items = [], uploads = Map.empty\<rparr>)) \<and>
   (\<forall>i j. i < j \<and> j < length (items (run cfg steps \<lparr>items = [], uploads = Map.empty\<rparr>)) \<longrightarrow>
      reported_at (items (run cfg steps \<lparr>items = [], uploads = Map.empty\<rparr>) ! i) \<le>
      reported_at (items (run cfg steps \<lparr>items = [], uploads = Map.empty\<rparr>) ! j))"
proof
  assume "sorted (map (\<lambda>s. clock (snd s)) steps)"
  then have ord: "sorted_wrt (\<lambda>a b. reported_at a \<le> reported_at b)
     (items (run cfg steps \<lparr>items = [], uploads = Map.empty\<rparr>))"
    using run_keeps_order [of "\<lparr>items = [], uploads = Map.empty\<rparr>" steps cfg] by simp
  then show "sorted_wrt (\<lambda>a b. reported_at a \<le> reported_at b)
     (items (run cfg steps \<lparr>items = [], uploads = Map.empty\<rparr>)) \<and>
   (\<forall>i j. i < j \<and> j < length (items (run cfg steps \<lparr>items = [], uploads = Map.empty\<rparr>)) \<longrightarrow>
      reported_at (items (run cfg steps \<lparr>items = [], uploads = Map.empty\<rparr>) ! i) \<le>
      reported_at (items (run cfg steps \<lparr>items = [], uploads = Map.empty\<rparr>) ! j))"
    by (simp add: sorted_wrt_iff_nth_less)
qed

theorem reported_at_monotone_witness:
  "sorted (map (\<lambda>s. clock (snd s))
     [(\<lparr>route = POST_items, payload = MultipartPayload [''item_name'' \<mapsto> ''A''] None\<rparr>,
       \<lparr>upload_clock = 5, clock = 5, new_id = 1, disk_fault = None, db_fault = None\<rparr>),
      (\<lparr>route = POST_items, payload = MultipartPayload [''item_name'' \<mapsto> ''B''] None\<rparr>,
       \<lparr>upload_clock = 5, clock = 5, new_id = 2, disk_fault = None, db_fault = None\<rparr>),
      (\<lparr>route = POST_items, payload = MultipartPayload [''item_name'' \<mapsto> ''C''] None\<rparr>,
       \<lparr>upload_clock = 8, clock = 8, new_id = 3, disk_fault = None, db_fault = None\<rparr>)]) \<and>
   map reported_at (items (run \<lparr>RENDER_EXTERNAL_URL = None\<rparr>
     [(\<lparr>route = POST_items, payload = MultipartPayload [''item_name'' \<mapsto> ''A''] None\<rparr>,
       \<lparr>upload_clock = 5, clock = 5, new_id = 1, disk_fault = None, db_fault = None\<rparr>),
      (\<lparr>route = POST_items, payload = MultipartPayload [''item_name'' \<mapsto> ''B''] None\<rparr>,
       \<lparr>upload_clock = 5, clock = 5, new_id = 2, disk_fault = None, db_fault = None\<rparr>),
      (\<lparr>route = POST_items, payload = MultipartPayload [''item_name'' \<mapsto> ''C''] None\<rparr>,
       \<lparr>upload_clock = 8, clock = 8, new_id = 3, disk_fault = None, db_fault = None\<rparr>)]
     \<lparr>items = [], uploads = Map.empty\<rparr>)) = [5, 5, 8] \<and>
   sorted_wrt (\<lambda>a b. reported_at a \<le> reported_at b) (items (run \<lparr>RENDER_EXTERNAL_URL = None\<rparr>
     [(\<lparr>route = POST_items, payload = MultipartPayload [''item_name'' \<mapsto> ''A''] None\<rparr>,
       \<lparr>upload_clock = 5, clock = 5, new_id = 1, disk_fault = None, db_fault = None\<rparr>),
      (\<lparr>route = POST_items, payload = MultipartPayload [''item_name'' \<mapsto> ''B''] None\<rparr>,
       \<lparr>upload_clock = 5, clock = 5, new_id = 2, disk_fault = None, db_fault = None\<rparr>),
      (\<lparr>route = POST_items, payload = MultipartPayload [''item_name'' \<mapsto> ''C''] None\<rparr>,
       \<lparr>upload_clock = 8, clock = 8, new_id = 3, disk_fault = None, db_fault = None\<rparr>)]
     \<lparr>items = [], uploads = Map.empty\<rparr>))"
proof (intro conjI)
  show clocks: "sorted (map (\<lambda>s. clock (snd s))
     [(\<lparr>route = POST_items, payload = MultipartPayload [''item_name'' \<mapsto> ''A''] None\<rparr>,
       \<lparr>upload_clock = 5, clock = 5, new_id = 1, disk_fault = None, db_fault = None\<rparr>),
      (\<lparr>route = POST_items, payload = MultipartPayload [''item_name'' \<mapsto> ''B''] None\<rparr>,
       \<lparr>upload_clock = 5, clock = 5, new_id = 2, disk_fault = None, db_fault = None\<rparr>),
      (\<lparr>route = POST_items, payload = MultipartPayload [''item_name'' \<mapsto> ''C''] None\<rparr>,
       \<lparr>upload_clock = 8, clock = 8, new_id = 3, disk_fault = None, db_fault = None\<rparr>)])"
    by simp
  show "map reported_at (items (run \<lparr>RENDER_EXTERNAL_URL = None\<rparr>
     [(\<lparr>route = POST_items, payload = MultipartPayload [''item_name'' \<mapsto> ''A''] None\<rparr>,
       \<lparr>upload_clock = 5, clock = 5, new_id = 1, disk_fault = None, db_fault = None\<rparr>),
      (\<lparr>route = POST_items, payload = MultipartPayload [''item_name'' \<mapsto> ''B''] None\<rparr>,
       \<lparr>upload_clock = 5, clock = 5, new_id = 2, disk_fault = None, db_fault = None\<rparr>),
      (\<lparr>route = POST_items, payload = MultipartPayload [''item_name'' \<mapsto> ''C''] None\<rparr>,
       \<lparr>upload_clock = 8, clock = 8, new_id = 3, disk_fault = None, db_fault = None\<rparr>)]
     \<lparr>items = [], uploads = Map.empty\<rparr>)) = [5, 5, 8]"
    by (simp add: app_post_form post_items_saved)
  from clocks show "sorted_wrt (\<lambda>a b. reported_at a \<le> reported_at b) (items (run \<lparr>RENDER_EXTERNAL_URL = None\<rparr>
     [(\<lparr>route = POST_items, payload = MultipartPayload [''item_name'' \<mapsto> ''A''] None\<rparr>,
       \<lparr>upload_clock = 5, clock = 5, new_id = 1, disk_fault = None, db_fault = None\<rparr>),
      (\<lparr>route = POST_items, payload = MultipartPayload [''item_name'' \<mapsto> ''B''] None\<rparr>,
       \<lparr>upload_clock = 5, clock = 5, new_id = 2, disk_fault = None, db_fault = None\<rparr>),
      (\<lparr>route = POST_items, payload = MultipartPayload [''item_name'' \<mapsto> ''C''] None\<rparr>,
       \<lparr>upload_clock = 8, clock = 8, new_id = 3, disk_fault = None, db_fault = None\<rparr>)]
     \<lparr>items = [], uploads = Map.empty\<rparr>))"
    using reported_at_monotone
      [where cfg = "\<lparr>RENDER_EXTERNAL_URL = None\<rparr>" and steps =
     "[(\<lparr>route = POST_items, payload = MultipartPayload [''item_name'' \<mapsto> ''A''] None\<rparr>,
       \<lparr>upload_clock = 5, clock = 5, new_id = 1, disk_fault = None, db_fault = None\<rparr>),
      (\<lparr>route = POST_items, payload = MultipartPayload [''item_name'' \<mapsto> ''B''] None\<rparr>,
       \<lparr>upload_clock = 5, clock = 5, new_id = 2, disk_fault = None, db_fault = None\<rparr>),
      (\<lparr>route = POST_items, payload = MultipartPayload [''item_name'' \<mapsto> ''C''] None\<rparr>,
       \<lparr>upload_clock = 8, clock = 8, new_id = 3, disk_fault = None, db_fault = None\<rparr>)]"]
    by blast
qed

end
